theory Spec2Isabelle
  imports Main "HOL-Library.AList"
begin

section \<open>Values, errors and the request context\<close>

text \<open>
  JavaScript values that the Koa integration passes around without looking inside:
  option objects, request bodies and response bodies. An object is the list of its
  properties in insertion order.
\<close>

datatype jsval =
    JUndefined
  | JBool bool
  | JNum int
  | JStr string
  | JObj "(string \<times> jsval) list"

text \<open>
  A thrown value. \<open>Error\<close> is an error object with its message and the two properties
  the upload interceptor reads (\<open>status\<close> is \<open>None\<close> when the property is absent,
  \<open>expose\<close> is \<open>False\<close> when it is absent); \<open>ErrorArray\<close> is the array that
  \<open>formatApolloErrors\<close> hands back, which the interceptor throws as it is.
\<close>

datatype error =
    Error (err_message: string) (err_status: "nat option") (err_expose: bool)
  | ErrorArray "error list"

text \<open>The property reads \<open>error.status\<close> and \<open>error.expose\<close>; an array has neither.\<close>

fun error_status :: "error \<Rightarrow> nat option" where
  "error_status (Error m s e) = s"
| "error_status (ErrorArray es) = None"

fun error_expose :: "error \<Rightarrow> bool" where
  "error_expose (Error m s e) = e"
| "error_expose (ErrorArray es) = False"

text \<open>
  A promise is modelled by the way it settles. \<open>await\<close> on \<open>Fulfilled v\<close> continues
  with \<open>v\<close>; on \<open>Rejected e\<close> it throws \<open>e\<close>. When it settles is not modelled.
\<close>

datatype 'a promise = Fulfilled 'a | Rejected error

text \<open>The raw Node request \<open>ctx.req\<close>: what the header parsers and the upload processor read.\<close>

record incoming =
  in_headers :: "(string \<times> string) list"
  in_payload :: string

text \<open>
  The Koa context, restricted to what this module reads and writes:
  \<open>ctx.req\<close>, \<open>ctx.path\<close>, \<open>ctx.request.method\<close>, \<open>ctx.request.body\<close>,
  \<open>ctx.status\<close>, the response headers written by \<open>ctx.set\<close>, and \<open>ctx.body\<close>.
  \<open>ctx_explicitStatus\<close> records whether some middleware has assigned \<open>ctx.status\<close>.
\<close>

record koa_ctx =
  ctx_req :: incoming
  ctx_path :: string
  ctx_method :: string
  ctx_request_body :: jsval
  ctx_status :: nat
  ctx_explicitStatus :: bool
  ctx_headers :: "(string \<times> string) list"
  ctx_body :: jsval

text \<open>
  Modelled from the spec: the response setters of the host framework (Koa), which are
  not part of this package. The spec has the health check answer 200 with the "pass"
  body although the handler assigns no status, and 503 where it assigns one: assigning
  a body gives status 200 unless a status has been assigned, and an assigned status stays.
  \<open>ctx.set(field, value)\<close> writes one response header.
\<close>

definition set_status :: "koa_ctx \<Rightarrow> nat \<Rightarrow> koa_ctx" where
  "set_status ctx code = ctx\<lparr>ctx_status := code, ctx_explicitStatus := True\<rparr>"

definition set_body :: "koa_ctx \<Rightarrow> jsval \<Rightarrow> koa_ctx" where
  "set_body ctx val =
     ctx\<lparr>ctx_body := val,
         ctx_status := (if ctx_explicitStatus ctx then ctx_status ctx else 200)\<rparr>"

definition set_header :: "koa_ctx \<Rightarrow> string \<Rightarrow> string \<Rightarrow> koa_ctx" where
  "set_header ctx field val = ctx\<lparr>ctx_headers := AList.update field val (ctx_headers ctx)\<rparr>"

text \<open>
  What a middleware call amounts to once its promise has settled: it returned, or it
  threw (rejected); either way with the context as the middleware left it.
\<close>

datatype outcome = Returned koa_ctx | Threw error koa_ctx

text \<open>
  A Koa middleware \<open>(ctx, next) => ...\<close>. The context is a shared mutable object in the
  source; here the continuation receives the context as it is when \<open>next()\<close> is called.
\<close>

type_synonym continuation = "koa_ctx \<Rightarrow> outcome"
type_synonym middleware = "koa_ctx \<Rightarrow> continuation \<Rightarrow> outcome"

section \<open>The server, its collaborators and the registration options\<close>

text \<open>
  The fields of \<open>ApolloServerBase\<close> that \<open>applyMiddleware\<close> and its middleware read or
  assign. \<open>srv_base\<close> stands for the rest of the base class's state, which only the
  base class's own methods touch.
\<close>

record server =
  srv_uploadsConfig :: "jsval option"
  srv_formatError :: "(error \<Rightarrow> error) option"
  srv_debug :: "bool option"
  srv_playgroundOptions :: "(string \<times> jsval) list option"
  srv_subscriptionsPath :: "string option"
  srv_graphqlPath :: string
  srv_playgroundPath :: "string option"
  srv_base :: jsval

text \<open>The second argument of \<open>formatApolloErrors\<close>.\<close>

record format_options =
  formatter :: "(error \<Rightarrow> error) option"
  debug :: "bool option"

text \<open>
  The collaborators imported by \<open>ApolloServer.ts\<close>, taken as parameters:
  the middleware factories \<open>corsMiddleware\<close> and \<open>bodyParser\<close> (a call without
  argument passes \<open>undefined\<close>), \<open>graphqlKoa\<close>, \<open>renderPlaygroundPage\<close>,
  \<open>accepts(req).types()\<close>, \<open>typeis\<close> (whether it returns a match),
  \<open>processFileUploads\<close>, \<open>formatApolloErrors\<close>, and the two methods of the base class,
  \<open>willStart\<close> (which may change the server and returns a promise) and
  \<open>graphQLServerOptions\<close>.
\<close>

record env =
  corsMiddleware :: "jsval \<Rightarrow> middleware"
  bodyParser :: "jsval \<Rightarrow> middleware"
  graphqlKoa :: "(koa_ctx \<Rightarrow> jsval promise) \<Rightarrow> middleware"
  renderPlaygroundPage :: "(string \<times> jsval) list \<Rightarrow> string"
  accepts_types :: "incoming \<Rightarrow> string list"
  typeis :: "incoming \<Rightarrow> string list \<Rightarrow> bool"
  processFileUploads :: "incoming \<Rightarrow> jsval \<Rightarrow> jsval promise"
  formatApolloErrors :: "error list \<Rightarrow> format_options \<Rightarrow> error list"
  willStart :: "server \<Rightarrow> unit promise \<times> server"
  graphQLServerOptions :: "server \<Rightarrow> koa_ctx \<Rightarrow> jsval promise"

text \<open>The host application: \<open>app.use\<close> appends to its middleware list.\<close>

record koa =
  app_middleware :: "middleware list"

definition use :: "koa \<Rightarrow> middleware \<Rightarrow> koa" where
  "use app fn = app\<lparr>app_middleware := app_middleware app @ [fn]\<rparr>"

text \<open>
  \<open>ServerRegistration\<close>. An optional property that is left out is \<open>None\<close>; \<open>cors\<close> and
  \<open>bodyParserConfig\<close> are a boolean, an options object or \<open>undefined\<close>, so they are
  values.
\<close>

text \<open>
  The health callback \<open>(ctx) => Promise<any>\<close>. A call may write to the context, and
  it either throws before any promise exists (\<open>Inl\<close> of the thrown value) or returns a
  promise (\<open>Inr\<close> of it), which is then fulfilled or rejected.
\<close>

type_synonym health_callback = "koa_ctx \<Rightarrow> (error + jsval promise) \<times> koa_ctx"

record registration =
  reg_app :: koa
  reg_path :: "string option"
  reg_playgroundPath :: "string option"
  reg_cors :: jsval
  reg_bodyParserConfig :: jsval
  reg_onHealthCheck :: "health_callback option"
  reg_disableHealthCheck :: "bool option"

section \<open>The middleware of ApolloServer.ts\<close>

text \<open>\<open>fileUploadMiddleware\<close> (lines 30-49).\<close>

definition fileUploadMiddleware :: "env \<Rightarrow> jsval \<Rightarrow> server \<Rightarrow> middleware" where
  "fileUploadMiddleware E uploadsConfig srv ctx next =
     (if typeis E (ctx_req ctx) [''multipart/form-data'']
      then (case processFileUploads E (ctx_req ctx) uploadsConfig of
              Fulfilled v \<Rightarrow> next (ctx\<lparr>ctx_request_body := v\<rparr>)
            | Rejected err \<Rightarrow>
                Threw
                  (ErrorArray (formatApolloErrors E [err]
                     \<lparr>formatter = srv_formatError srv, debug = srv_debug srv\<rparr>))
                  (case error_status err of
                     Some code \<Rightarrow>
                       if code \<noteq> 0 \<and> error_expose err then set_status ctx code else ctx
                   | None \<Rightarrow> ctx))
      else next ctx)"

text \<open>\<open>middlewareFromPath\<close> (lines 51-60).\<close>

definition middlewareFromPath :: "string \<Rightarrow> middleware \<Rightarrow> middleware" where
  "middlewareFromPath path mw ctx next =
     (if ctx_path ctx = path then mw ctx next else next ctx)"

text \<open>\<open>createGraphQLServerOptions\<close> (lines 66-68).\<close>

definition createGraphQLServerOptions :: "env \<Rightarrow> server \<Rightarrow> koa_ctx \<Rightarrow> jsval promise" where
  "createGraphQLServerOptions E srv ctx = graphQLServerOptions E srv ctx"

text \<open>The gate of lines 108-111: await the captured promise, then continue.\<close>

definition initGate :: "unit promise \<Rightarrow> middleware" where
  "initGate promiseWillStart ctx next =
     (case promiseWillStart of
        Fulfilled u \<Rightarrow> next ctx
      | Rejected err \<Rightarrow> Threw err ctx)"

text \<open>
  The health-check handler of lines 118-134. It is not an \<open>async\<close> function and line
  123 calls the callback outside any \<open>try\<close>: what the call itself throws leaves the
  handler, while \<open>then\<close> and \<open>catch\<close> act on the promise the call returns.
\<close>

definition healthCheck :: "health_callback option \<Rightarrow> middleware" where
  "healthCheck onHealthCheck ctx next =
     (let ctx1 = set_header ctx ''Content-Type'' ''application/health+json''
      in case onHealthCheck of
           Some check \<Rightarrow>
             (case check ctx1 of
                (Inl thrown, ctx2) \<Rightarrow> Threw thrown ctx2
              | (Inr (Fulfilled v), ctx2) \<Rightarrow>
                  Returned (set_body ctx2 (JObj [(''status'', JStr ''pass'')]))
              | (Inr (Rejected err), ctx2) \<Rightarrow>
                  Returned (set_body (set_status ctx2 503) (JObj [(''status'', JStr ''fail'')])))
         | None \<Rightarrow> Returned (set_body ctx1 (JObj [(''status'', JStr ''pass'')])))"

text \<open>
  The object literal of lines 166-170: two properties, then the spread of
  \<open>playgroundOptions\<close>, whose properties overwrite or follow them.
\<close>

definition playgroundRenderPageOptions ::
  "server \<Rightarrow> string \<Rightarrow> (string \<times> jsval) list option" where
  "playgroundRenderPageOptions srv path =
     (case srv_playgroundOptions srv of
        Some opts \<Rightarrow>
          Some (fold (\<lambda>(k, v). AList.update k v) opts
                  [(''endpoint'', JStr path),
                   (''subscriptionEndpoint'',
                      (case srv_subscriptionsPath srv of Some s \<Rightarrow> JStr s | None \<Rightarrow> JUndefined))])
      | None \<Rightarrow> None)"

text \<open>The \<open>prefersHTML\<close> of lines 183-186.\<close>

definition prefersHTML :: "string list \<Rightarrow> bool" where
  "prefersHTML types =
     (find (\<lambda>x. x = ''text/html'' \<or> x = ''application/json'') types = Some ''text/html'')"

text \<open>The page that lines 189-193 and 206-208 write to the response.\<close>

definition renderPlayground :: "env \<Rightarrow> (string \<times> jsval) list \<Rightarrow> koa_ctx \<Rightarrow> koa_ctx" where
  "renderPlayground E opts ctx =
     set_body (set_header ctx ''Content-Type'' ''text/html'') (JStr (renderPlaygroundPage E opts))"

text \<open>
  The dispatcher of lines 174-200. \<open>srv\<close> is the server the closure refers to as
  \<open>this\<close>; \<open>renderOpts\<close>, \<open>path\<close> and \<open>playgroundPath\<close> are the variables it captures.
\<close>

definition dispatcher ::
  "env \<Rightarrow> server \<Rightarrow> (string \<times> jsval) list option \<Rightarrow> string \<Rightarrow> string \<Rightarrow> middleware" where
  "dispatcher E srv renderOpts path playgroundPath ctx next =
     (case renderOpts of
        Some opts \<Rightarrow>
          if path = playgroundPath \<and> ctx_method ctx = ''GET''
          then (if prefersHTML (accepts_types E (ctx_req ctx))
                then Returned (renderPlayground E opts ctx)
                else graphqlKoa E (createGraphQLServerOptions E srv) ctx next)
          else graphqlKoa E (createGraphQLServerOptions E srv) ctx next
      | None \<Rightarrow> graphqlKoa E (createGraphQLServerOptions E srv) ctx next)"

text \<open>The explorer-only handler of lines 205-209.\<close>

definition playgroundHandler :: "env \<Rightarrow> (string \<times> jsval) list \<Rightarrow> middleware" where
  "playgroundHandler E opts ctx next = Returned (renderPlayground E opts ctx)"

section \<open>applyMiddleware\<close>

text \<open>Lines 91-92: an absent or empty path is falsy and takes the default.\<close>

definition defaultPath :: "string option \<Rightarrow> string" where
  "defaultPath path = (case path of None \<Rightarrow> ''/graphql'' | Some p \<Rightarrow> if p = [] then ''/graphql'' else p)"

definition defaultPlaygroundPath :: "string option \<Rightarrow> string \<Rightarrow> string" where
  "defaultPlaygroundPath playgroundPath path =
     (case playgroundPath of None \<Rightarrow> path | Some p \<Rightarrow> if p = [] then path else p)"

text \<open>
  \<open>applyMiddleware\<close> (lines 82-212). It changes the server (\<open>this\<close>) and the
  application, so it returns both. A factory called without argument receives
  \<open>undefined\<close>.
\<close>

definition applyMiddleware :: "env \<Rightarrow> server \<Rightarrow> registration \<Rightarrow> server \<times> koa" where
  "applyMiddleware E this r =
     (let path = defaultPath (reg_path r);
          playgroundPath = defaultPlaygroundPath (reg_playgroundPath r) path;
          (promiseWillStart, this1) = willStart E this;
          app1 = use (reg_app r) (middlewareFromPath path (initGate promiseWillStart));
          app2 = (if reg_disableHealthCheck r \<noteq> Some True
                  then use app1
                         (middlewareFromPath ''/.well-known/apollo/server-health''
                            (healthCheck (reg_onHealthCheck r)))
                  else app1);
          uploadsMiddleware =
            (case srv_uploadsConfig this1 of
               Some cfg \<Rightarrow> Some (fileUploadMiddleware E cfg this1)
             | None \<Rightarrow> None);
          this2 = this1\<lparr>srv_graphqlPath := path, srv_playgroundPath := Some playgroundPath\<rparr>;
          app3 = (if reg_cors r = JBool True
                  then use app2 (middlewareFromPath path (corsMiddleware E JUndefined))
                  else if reg_cors r \<noteq> JBool False
                  then use app2 (middlewareFromPath path (corsMiddleware E (reg_cors r)))
                  else app2);
          app4 = (if reg_bodyParserConfig r = JBool True
                  then use app3 (middlewareFromPath path (bodyParser E JUndefined))
                  else if reg_bodyParserConfig r \<noteq> JBool False
                  then use app3 (middlewareFromPath path (bodyParser E (reg_bodyParserConfig r)))
                  else app3);
          app5 = (case uploadsMiddleware of
                    Some mw \<Rightarrow> use app4 (middlewareFromPath path mw)
                  | None \<Rightarrow> app4);
          renderOpts = playgroundRenderPageOptions this2 path;
          app6 = use app5 (middlewareFromPath path (dispatcher E this2 renderOpts path playgroundPath));
          app7 = (case renderOpts of
                    Some opts \<Rightarrow>
                      if path \<noteq> playgroundPath
                      then use app6 (middlewareFromPath playgroundPath (playgroundHandler E opts))
                      else app6
                  | None \<Rightarrow> app6)
      in (this2, app7))"

section \<open>The registered chain, stage by stage\<close>

text \<open>
  The values \<open>applyMiddleware\<close> works with after lines 91-92 and 144-145, and the
  stages it registers, each named on its own. The chain that the source builds by
  successive \<open>app.use\<close> calls is compared with these below.
\<close>

definition registeredPath :: "registration \<Rightarrow> string" where
  "registeredPath r = defaultPath (reg_path r)"

definition registeredPlaygroundPath :: "registration \<Rightarrow> string" where
  "registeredPlaygroundPath r = defaultPlaygroundPath (reg_playgroundPath r) (registeredPath r)"

definition registeredServer :: "env \<Rightarrow> server \<Rightarrow> registration \<Rightarrow> server" where
  "registeredServer E this r =
     (snd (willStart E this))\<lparr>srv_graphqlPath := registeredPath r,
        srv_playgroundPath := Some (registeredPlaygroundPath r)\<rparr>"

definition initStage :: "env \<Rightarrow> server \<Rightarrow> registration \<Rightarrow> middleware" where
  "initStage E this r = middlewareFromPath (registeredPath r) (initGate (fst (willStart E this)))"

definition healthStages :: "registration \<Rightarrow> middleware list" where
  "healthStages r =
     (if reg_disableHealthCheck r = Some True then []
      else [middlewareFromPath ''/.well-known/apollo/server-health''
              (healthCheck (reg_onHealthCheck r))])"

definition policyStages :: "string \<Rightarrow> (jsval \<Rightarrow> middleware) \<Rightarrow> jsval \<Rightarrow> middleware list" where
  "policyStages path factory opt =
     (if opt = JBool False then []
      else if opt = JBool True then [middlewareFromPath path (factory JUndefined)]
      else [middlewareFromPath path (factory opt)])"

definition uploadStages :: "env \<Rightarrow> server \<Rightarrow> registration \<Rightarrow> middleware list" where
  "uploadStages E this r =
     (case srv_uploadsConfig (snd (willStart E this)) of
        Some cfg \<Rightarrow>
          [middlewareFromPath (registeredPath r)
             (fileUploadMiddleware E cfg (snd (willStart E this)))]
      | None \<Rightarrow> [])"

definition dispatcherStage :: "env \<Rightarrow> server \<Rightarrow> registration \<Rightarrow> middleware" where
  "dispatcherStage E this r =
     middlewareFromPath (registeredPath r)
       (dispatcher E (registeredServer E this r)
          (playgroundRenderPageOptions (registeredServer E this r) (registeredPath r))
          (registeredPath r) (registeredPlaygroundPath r))"

definition explorerStages :: "env \<Rightarrow> server \<Rightarrow> registration \<Rightarrow> middleware list" where
  "explorerStages E this r =
     (case playgroundRenderPageOptions (registeredServer E this r) (registeredPath r) of
        Some opts \<Rightarrow>
          if registeredPath r = registeredPlaygroundPath r then []
          else [middlewareFromPath (registeredPlaygroundPath r) (playgroundHandler E opts)]
      | None \<Rightarrow> [])"

section \<open>A concrete environment\<close>

text \<open>
  Collaborators, a server, a registration and requests on which the definitions can be
  evaluated. The accept parser returns the \<open>accept\<close> entries of the request in their
  order; the upload processor rejects the payload \<open>bad\<close> with an exposable 422; the
  startup routine logs each call in \<open>srv_base\<close>, where \<open>demoCalls\<close> counts them.
  Of the two health callbacks one returns a rejected promise and the other throws.
\<close>

definition demoWillStart :: "server \<Rightarrow> unit promise \<times> server" where
  "demoWillStart srv =
     (Fulfilled (),
      srv\<lparr>srv_base := JObj ((''willStart'', JUndefined)
                 # (case srv_base srv of JObj calls \<Rightarrow> calls | _ \<Rightarrow> []))\<rparr>)"

definition demoCalls :: "server \<Rightarrow> nat" where
  "demoCalls srv = (case srv_base srv of JObj calls \<Rightarrow> length calls | _ \<Rightarrow> 0)"

definition demoEnv :: env where
  "demoEnv =
     \<lparr>corsMiddleware = (\<lambda>opt ctx next. next (set_header ctx ''Vary'' ''Origin'')),
      bodyParser = (\<lambda>opt ctx next. next (ctx\<lparr>ctx_request_body := JStr (in_payload (ctx_req ctx))\<rparr>)),
      graphqlKoa = (\<lambda>options ctx next. Returned (set_body ctx (JStr ''data''))),
      renderPlaygroundPage = (\<lambda>opts. ''<html>''),
      accepts_types = (\<lambda>rq. map snd (filter (\<lambda>h. fst h = ''accept'') (in_headers rq))),
      typeis = (\<lambda>rq ts. case map_of (in_headers rq) ''content-type'' of
                            Some t \<Rightarrow> t \<in> set ts | None \<Rightarrow> False),
      processFileUploads = (\<lambda>rq cfg. if in_payload rq = ''bad''
                              then Rejected (Error ''too large'' (Some 422) True)
                              else Fulfilled (JStr (in_payload rq))),
      formatApolloErrors = (\<lambda>errs opts. errs),
      willStart = demoWillStart,
      graphQLServerOptions = (\<lambda>srv ctx. Fulfilled JUndefined)\<rparr>"

definition demoServer :: server where
  "demoServer =
     \<lparr>srv_uploadsConfig = Some (JObj []),
      srv_formatError = None,
      srv_debug = Some False,
      srv_playgroundOptions = Some [],
      srv_subscriptionsPath = None,
      srv_graphqlPath = ''/graphql'',
      srv_playgroundPath = None,
      srv_base = JObj []\<rparr>"

definition demoRegistration :: registration where
  "demoRegistration =
     \<lparr>reg_app = \<lparr>app_middleware = []\<rparr>,
      reg_path = None,
      reg_playgroundPath = None,
      reg_cors = JUndefined,
      reg_bodyParserConfig = JBool False,
      reg_onHealthCheck = None,
      reg_disableHealthCheck = None\<rparr>"

definition demoRejectingCheck :: health_callback where
  "demoRejectingCheck ctx = (Inr (Rejected (Error ''database down'' (Some 500) True)), ctx)"

definition demoThrowingCheck :: health_callback where
  "demoThrowingCheck ctx = (Inl (Error ''no database handle'' None False), ctx)"

definition demoRequest :: "string \<Rightarrow> string \<Rightarrow> string list \<Rightarrow> string \<Rightarrow> string \<Rightarrow> koa_ctx" where
  "demoRequest path method accept contentType payload =
     \<lparr>ctx_req = \<lparr>in_headers = map (Pair ''accept'') accept @ [(''content-type'', contentType)],
                  in_payload = payload\<rparr>,
      ctx_path = path,
      ctx_method = method,
      ctx_request_body = JUndefined,
      ctx_status = 404,
      ctx_explicitStatus = False,
      ctx_headers = [],
      ctx_body = JUndefined\<rparr>"

section \<open>The chain built by applyMiddleware\<close>

lemma applyMiddleware_server:
  "fst (applyMiddleware E this r) = registeredServer E this r"
  by (simp add: applyMiddleware_def registeredServer_def registeredPath_def
      registeredPlaygroundPath_def Let_def split: prod.splits)

lemma use_chain: "app_middleware (use a m) = app_middleware a @ [m]"
  by (simp add: use_def)

lemma applyMiddleware_chain:
  "app_middleware (snd (applyMiddleware E this r)) =
     app_middleware (reg_app r) @ [initStage E this r] @ healthStages r
       @ policyStages (registeredPath r) (corsMiddleware E) (reg_cors r)
       @ policyStages (registeredPath r) (bodyParser E) (reg_bodyParserConfig r)
       @ uploadStages E this r @ [dispatcherStage E this r] @ explorerStages E this r"
proof -
  obtain p this1 where w: "willStart E this = (p, this1)"
    by (cases "willStart E this")
  define path where "path = defaultPath (reg_path r)"
  define pp where "pp = defaultPlaygroundPath (reg_playgroundPath r) path"
  define this2 where "this2 = this1\<lparr>srv_graphqlPath := path, srv_playgroundPath := Some pp\<rparr>"
  define ro where "ro = playgroundRenderPageOptions this2 path"
  define app1 where "app1 = use (reg_app r) (middlewareFromPath path (initGate p))"
  define app2 where "app2 = (if reg_disableHealthCheck r \<noteq> Some True
      then use app1 (middlewareFromPath ''/.well-known/apollo/server-health''
                       (healthCheck (reg_onHealthCheck r)))
      else app1)"
  define app3 where "app3 = (if reg_cors r = JBool True
      then use app2 (middlewareFromPath path (corsMiddleware E JUndefined))
      else if reg_cors r \<noteq> JBool False
      then use app2 (middlewareFromPath path (corsMiddleware E (reg_cors r)))
      else app2)"
  define app4 where "app4 = (if reg_bodyParserConfig r = JBool True
      then use app3 (middlewareFromPath path (bodyParser E JUndefined))
      else if reg_bodyParserConfig r \<noteq> JBool False
      then use app3 (middlewareFromPath path (bodyParser E (reg_bodyParserConfig r)))
      else app3)"
  define um where "um = (case srv_uploadsConfig this1 of
        Some cfg \<Rightarrow> Some (fileUploadMiddleware E cfg this1)
      | None \<Rightarrow> None)"
  define app5 where "app5 = (case um of
        Some mw \<Rightarrow> use app4 (middlewareFromPath path mw)
      | None \<Rightarrow> app4)"
  define app6 where "app6 = use app5 (middlewareFromPath path (dispatcher E this2 ro path pp))"
  define app7 where "app7 = (case ro of
        Some opts \<Rightarrow>
          if path \<noteq> pp then use app6 (middlewareFromPath pp (playgroundHandler E opts)) else app6
      | None \<Rightarrow> app6)"
  have run: "snd (applyMiddleware E this r) = app7"
    unfolding applyMiddleware_def Let_def w app7_def app6_def app5_def um_def app4_def
      app3_def app2_def app1_def ro_def this2_def pp_def path_def
    by (simp only: prod.case snd_conv)
  have srv: "registeredServer E this r = this2"
    by (simp add: registeredServer_def registeredPath_def registeredPlaygroundPath_def
        w this2_def pp_def path_def)
  have s1: "app_middleware app1 = app_middleware (reg_app r) @ [initStage E this r]"
    by (simp add: app1_def use_chain initStage_def registeredPath_def w path_def)
  have s2: "app_middleware app2 = app_middleware app1 @ healthStages r"
    by (simp add: app2_def use_chain healthStages_def)
  have s3: "app_middleware app3 =
      app_middleware app2 @ policyStages (registeredPath r) (corsMiddleware E) (reg_cors r)"
    by (simp add: app3_def use_chain policyStages_def registeredPath_def path_def)
  have s4: "app_middleware app4 =
      app_middleware app3
        @ policyStages (registeredPath r) (bodyParser E) (reg_bodyParserConfig r)"
    by (simp add: app4_def use_chain policyStages_def registeredPath_def path_def)
  have s5: "app_middleware app5 = app_middleware app4 @ uploadStages E this r"
    by (simp add: app5_def um_def use_chain uploadStages_def registeredPath_def w path_def
        split: option.splits)
  have s6: "app_middleware app6 = app_middleware app5 @ [dispatcherStage E this r]"
    by (simp add: app6_def use_chain dispatcherStage_def srv ro_def
        registeredPath_def registeredPlaygroundPath_def pp_def path_def)
  have s7: "app_middleware app7 = app_middleware app6 @ explorerStages E this r"
    by (simp add: app7_def use_chain explorerStages_def srv ro_def
        registeredPath_def registeredPlaygroundPath_def pp_def path_def
        split: option.splits)
  show ?thesis
    by (simp add: run s1 s2 s3 s4 s5 s6 s7)
qed


lemma middlewareFromPath_wrapped: "\<exists>p mw. middlewareFromPath q m = middlewareFromPath p mw"
  by blast

lemma stages_wrapped:
  "s \<in> set ([initStage E this r] @ healthStages r
       @ policyStages (registeredPath r) (corsMiddleware E) (reg_cors r)
       @ policyStages (registeredPath r) (bodyParser E) (reg_bodyParserConfig r)
       @ uploadStages E this r @ [dispatcherStage E this r] @ explorerStages E this r)
   \<Longrightarrow> \<exists>p mw. s = middlewareFromPath p mw"
  by (auto simp: initStage_def healthStages_def policyStages_def uploadStages_def
      dispatcherStage_def explorerStages_def split: if_splits option.splits)

lemma chain_cors_irrelevant:
  "initStage E this (r\<lparr>reg_cors := c\<rparr>) = initStage E this r"
  "healthStages (r\<lparr>reg_cors := c\<rparr>) = healthStages r"
  "uploadStages E this (r\<lparr>reg_cors := c\<rparr>) = uploadStages E this r"
  "dispatcherStage E this (r\<lparr>reg_cors := c\<rparr>) = dispatcherStage E this r"
  "explorerStages E this (r\<lparr>reg_cors := c\<rparr>) = explorerStages E this r"
  "registeredPath (r\<lparr>reg_cors := c\<rparr>) = registeredPath r"
  by (simp_all add: initStage_def healthStages_def uploadStages_def dispatcherStage_def
      explorerStages_def registeredPath_def registeredPlaygroundPath_def registeredServer_def
      split: option.splits)

lemma chain_bodyParserConfig_irrelevant:
  "initStage E this (r\<lparr>reg_bodyParserConfig := c\<rparr>) = initStage E this r"
  "healthStages (r\<lparr>reg_bodyParserConfig := c\<rparr>) = healthStages r"
  "uploadStages E this (r\<lparr>reg_bodyParserConfig := c\<rparr>) = uploadStages E this r"
  "dispatcherStage E this (r\<lparr>reg_bodyParserConfig := c\<rparr>) = dispatcherStage E this r"
  "explorerStages E this (r\<lparr>reg_bodyParserConfig := c\<rparr>) = explorerStages E this r"
  "registeredPath (r\<lparr>reg_bodyParserConfig := c\<rparr>) = registeredPath r"
  by (simp_all add: initStage_def healthStages_def uploadStages_def dispatcherStage_def
      explorerStages_def registeredPath_def registeredPlaygroundPath_def registeredServer_def
      split: option.splits)


lemma playgroundRenderPageOptions_configured:
  "(\<exists>opts. playgroundRenderPageOptions srv path = Some opts) \<longleftrightarrow>
     srv_playgroundOptions srv \<noteq> None"
  by (simp add: playgroundRenderPageOptions_def split: option.splits)

lemma renderPlayground_response:
  "map_of (ctx_headers (renderPlayground E opts ctx)) ''Content-Type'' = Some ''text/html''"
  "ctx_body (renderPlayground E opts ctx) = JStr (renderPlaygroundPage E opts)"
  by (simp_all add: renderPlayground_def set_body_def set_header_def update_conv')

lemma dispatcherStage_registered:
  "dispatcherStage E this r \<in> set (app_middleware (snd (applyMiddleware E this r)))"
  by (simp add: applyMiddleware_chain)


lemma initStage_first:
  "app_middleware (snd (applyMiddleware E this r)) ! length (app_middleware (reg_app r)) =
     initStage E this r"
  by (simp add: applyMiddleware_chain)

lemma willStart_irrelevant_options:
  "createGraphQLServerOptions (E\<lparr>willStart := routine\<rparr>) = createGraphQLServerOptions E"
  by (simp add: fun_eq_iff createGraphQLServerOptions_def)

lemma willStart_irrelevant:
  "fileUploadMiddleware (E\<lparr>willStart := routine\<rparr>) = fileUploadMiddleware E"
  "dispatcher (E\<lparr>willStart := routine\<rparr>) = dispatcher E"
  "playgroundHandler (E\<lparr>willStart := routine\<rparr>) = playgroundHandler E"
  by (simp_all add: fun_eq_iff fileUploadMiddleware_def dispatcher_def playgroundHandler_def
      renderPlayground_def willStart_irrelevant_options split: promise.splits option.splits)

lemma chain_same_startup:
  assumes "routine this = willStart E this"
  shows "app_middleware (snd (applyMiddleware (E\<lparr>willStart := routine\<rparr>) this r)) =
         app_middleware (snd (applyMiddleware E this r))"
  using assms
  by (simp add: applyMiddleware_chain initStage_def uploadStages_def dispatcherStage_def
      explorerStages_def registeredServer_def willStart_irrelevant split: option.splits)

lemma healthStage_second:
  assumes "reg_disableHealthCheck r \<noteq> Some True"
  shows "app_middleware (snd (applyMiddleware E this r)) ! Suc (length (app_middleware (reg_app r)))
    = middlewareFromPath ''/.well-known/apollo/server-health'' (healthCheck (reg_onHealthCheck r))"
  using assms by (simp add: applyMiddleware_chain healthStages_def nth_append)

lemma healthCheck_none:
  "healthCheck None ctx next =
     Returned (set_body (set_header ctx ''Content-Type'' ''application/health+json'')
                 (JObj [(''status'', JStr ''pass'')]))"
  by (simp add: healthCheck_def)

lemma healthCheck_rejected:
  assumes "check (set_header ctx ''Content-Type'' ''application/health+json'') = (Inr (Rejected err), ctx2)"
  shows "healthCheck (Some check) ctx next =
     Returned (set_body (set_status ctx2 503) (JObj [(''status'', JStr ''fail'')]))"
  using assms by (simp add: healthCheck_def)

lemma healthCheck_fulfilled:
  assumes "check (set_header ctx ''Content-Type'' ''application/health+json'') = (Inr (Fulfilled v), ctx2)"
  shows "healthCheck (Some check) ctx next =
     Returned (set_body ctx2 (JObj [(''status'', JStr ''pass'')]))"
  using assms by (simp add: healthCheck_def)

lemma healthCheck_callback_argument:
  assumes "\<forall>c. map_of (ctx_headers c) ''Content-Type'' = Some ''application/health+json''
             \<longrightarrow> check' c = check c"
  shows "healthCheck (Some check') ctx next = healthCheck (Some check) ctx next"
proof -
  have "map_of (ctx_headers (set_header ctx ''Content-Type'' ''application/health+json''))
          ''Content-Type'' = Some ''application/health+json''"
    by (simp add: set_header_def update_conv')
  with assms have "check' (set_header ctx ''Content-Type'' ''application/health+json'')
      = check (set_header ctx ''Content-Type'' ''application/health+json'')"
    by blast
  then show ?thesis
    by (simp add: healthCheck_def)
qed

lemmas demo_defs =
  demoEnv_def demoWillStart_def demoServer_def demoRegistration_def demoRequest_def
  registeredPath_def registeredPlaygroundPath_def registeredServer_def
  defaultPath_def defaultPlaygroundPath_def playgroundRenderPageOptions_def

section \<open>Properties\<close>

text \<open>
  C6. The path gate compares the request path with the target by string equality. On a
  match the outcome is that of the inner middleware, called with the same context and
  continuation; on a mismatch the outcome is that of the continuation, called with the
  unchanged context, whatever the inner middleware is.
\<close>

theorem middlewareFromPath_gate:
  "(ctx_path ctx = path \<longrightarrow> middlewareFromPath path mw ctx next = mw ctx next)
   \<and> (ctx_path ctx \<noteq> path \<longrightarrow>
        (\<forall>inner. middlewareFromPath path inner ctx next = next ctx))"
  by (simp add: middlewareFromPath_def)

theorem middlewareFromPath_gate_witness:
  "middlewareFromPath ''/graphql'' (playgroundHandler demoEnv [])
       (demoRequest ''/graphql'' ''GET'' [] [] []) Returned
     = playgroundHandler demoEnv [] (demoRequest ''/graphql'' ''GET'' [] [] []) Returned
   \<and> (\<forall>inner. middlewareFromPath ''/graphql'' inner
          (demoRequest ''/other'' ''GET'' [] [] []) Returned
        = Returned (demoRequest ''/other'' ''GET'' [] [] []))"
  using middlewareFromPath_gate
          [of "demoRequest ''/graphql'' ''GET'' [] [] []" "''/graphql''"
              "playgroundHandler demoEnv []" Returned]
        middlewareFromPath_gate
          [of "demoRequest ''/other'' ''GET'' [] [] []" "''/graphql''"
              "playgroundHandler demoEnv []" Returned]
  by (simp add: demoRequest_def)

text \<open>
  C5. The chain that \<open>applyMiddleware\<close> leaves on the application is the chain it
  found followed by, in this order: the initialization gate; the health check unless
  \<open>disableHealthCheck\<close> is true; the CORS middleware under its option; the body parser
  under its option; the upload interceptor when the server has an upload configuration;
  the dispatcher; and the explorer-only handler, which is there only if the explorer path
  differs from the execution path. Every stage it adds is a path-gated middleware.
\<close>

theorem applyMiddleware_registration_order:
  "app_middleware (snd (applyMiddleware E this r)) =
     app_middleware (reg_app r) @ [initStage E this r] @ healthStages r
       @ policyStages (registeredPath r) (corsMiddleware E) (reg_cors r)
       @ policyStages (registeredPath r) (bodyParser E) (reg_bodyParserConfig r)
       @ uploadStages E this r @ [dispatcherStage E this r] @ explorerStages E this r
   \<and> (healthStages r = [] \<longleftrightarrow> reg_disableHealthCheck r = Some True)
   \<and> (uploadStages E this r = [] \<longleftrightarrow> srv_uploadsConfig (snd (willStart E this)) = None)
   \<and> (explorerStages E this r \<noteq> [] \<longrightarrow> registeredPath r \<noteq> registeredPlaygroundPath r)
   \<and> (\<forall>s \<in> set (drop (length (app_middleware (reg_app r)))
                    (app_middleware (snd (applyMiddleware E this r)))).
         \<exists>p mw. s = middlewareFromPath p mw)"
proof -
  have wrapped: "\<forall>s \<in> set (drop (length (app_middleware (reg_app r)))
                    (app_middleware (snd (applyMiddleware E this r)))).
         \<exists>p mw. s = middlewareFromPath p mw"
    unfolding applyMiddleware_chain using stages_wrapped [of _ E this r] by simp
  have h: "healthStages r = [] \<longleftrightarrow> reg_disableHealthCheck r = Some True"
    by (simp add: healthStages_def)
  have u: "uploadStages E this r = [] \<longleftrightarrow> srv_uploadsConfig (snd (willStart E this)) = None"
    by (simp add: uploadStages_def split: option.splits)
  have e: "explorerStages E this r \<noteq> [] \<longrightarrow> registeredPath r \<noteq> registeredPlaygroundPath r"
    by (simp add: explorerStages_def split: option.splits)
  show ?thesis
    using applyMiddleware_chain [of E this r] wrapped h u e by blast
qed

theorem applyMiddleware_registration_order_witness:
  "app_middleware (snd (applyMiddleware demoEnv demoServer
       (demoRegistration\<lparr>reg_playgroundPath := Some ''/playground''\<rparr>))) =
     [middlewareFromPath ''/graphql'' (initGate (Fulfilled ())),
      middlewareFromPath ''/.well-known/apollo/server-health'' (healthCheck None),
      middlewareFromPath ''/graphql'' (corsMiddleware demoEnv JUndefined),
      middlewareFromPath ''/graphql''
        (fileUploadMiddleware demoEnv (JObj []) (demoServer\<lparr>srv_base := JObj [(''willStart'', JUndefined)]\<rparr>)),
      middlewareFromPath ''/graphql''
        (dispatcher demoEnv
           (demoServer\<lparr>srv_base := JObj [(''willStart'', JUndefined)], srv_graphqlPath := ''/graphql'',
              srv_playgroundPath := Some ''/playground''\<rparr>)
           (Some [(''endpoint'', JStr ''/graphql''), (''subscriptionEndpoint'', JUndefined)])
           ''/graphql'' ''/playground''),
      middlewareFromPath ''/playground''
        (playgroundHandler demoEnv
           [(''endpoint'', JStr ''/graphql''), (''subscriptionEndpoint'', JUndefined)])]"
  using applyMiddleware_registration_order
          [of demoEnv demoServer "demoRegistration\<lparr>reg_playgroundPath := Some ''/playground''\<rparr>"]
  by (simp add: demoEnv_def demoWillStart_def demoServer_def demoRegistration_def initStage_def healthStages_def
      policyStages_def uploadStages_def dispatcherStage_def explorerStages_def
      registeredPath_def registeredPlaygroundPath_def registeredServer_def defaultPath_def
      defaultPlaygroundPath_def playgroundRenderPageOptions_def)

text \<open>
  C7. In the registered chain the CORS stage and the body-parser stage follow one and the
  same policy on their option: \<open>true\<close> registers the factory's middleware built without
  options, \<open>false\<close> registers nothing, and an options object registers the middleware
  built from that object.
\<close>

theorem cors_bodyParser_policy:
  "app_middleware (snd (applyMiddleware E this r)) =
     (app_middleware (reg_app r) @ [initStage E this r] @ healthStages r)
       @ policyStages (registeredPath r) (corsMiddleware E) (reg_cors r)
       @ policyStages (registeredPath r) (bodyParser E) (reg_bodyParserConfig r)
       @ (uploadStages E this r @ [dispatcherStage E this r] @ explorerStages E this r)
   \<and> policyStages path factory (JBool True) = [middlewareFromPath path (factory JUndefined)]
   \<and> policyStages path factory (JBool False) = []
   \<and> policyStages path factory (JObj opts) = [middlewareFromPath path (factory (JObj opts))]"
  by (simp add: applyMiddleware_chain policyStages_def)

theorem cors_bodyParser_policy_witness:
  "app_middleware (snd (applyMiddleware demoEnv (demoServer\<lparr>srv_uploadsConfig := None\<rparr>)
       (demoRegistration\<lparr>reg_cors := JObj [(''origin'', JStr ''*'')],
          reg_bodyParserConfig := JBool True, reg_disableHealthCheck := Some True\<rparr>))) =
     [initStage demoEnv (demoServer\<lparr>srv_uploadsConfig := None\<rparr>) demoRegistration,
      middlewareFromPath ''/graphql'' (corsMiddleware demoEnv (JObj [(''origin'', JStr ''*'')])),
      middlewareFromPath ''/graphql'' (bodyParser demoEnv JUndefined),
      dispatcherStage demoEnv (demoServer\<lparr>srv_uploadsConfig := None\<rparr>) demoRegistration]
   \<and> app_middleware (snd (applyMiddleware demoEnv (demoServer\<lparr>srv_uploadsConfig := None\<rparr>)
       (demoRegistration\<lparr>reg_cors := JBool False,
          reg_bodyParserConfig := JBool False, reg_disableHealthCheck := Some True\<rparr>))) =
     [initStage demoEnv (demoServer\<lparr>srv_uploadsConfig := None\<rparr>) demoRegistration,
      dispatcherStage demoEnv (demoServer\<lparr>srv_uploadsConfig := None\<rparr>) demoRegistration]"
  using cors_bodyParser_policy
          [of demoEnv "demoServer\<lparr>srv_uploadsConfig := None\<rparr>"
              "demoRegistration\<lparr>reg_cors := JObj [(''origin'', JStr ''*'')],
                 reg_bodyParserConfig := JBool True, reg_disableHealthCheck := Some True\<rparr>"]
        cors_bodyParser_policy
          [of demoEnv "demoServer\<lparr>srv_uploadsConfig := None\<rparr>"
              "demoRegistration\<lparr>reg_cors := JBool False,
                 reg_bodyParserConfig := JBool False, reg_disableHealthCheck := Some True\<rparr>"]
  by (simp add: demoEnv_def demoWillStart_def demoServer_def demoRegistration_def initStage_def healthStages_def
      policyStages_def uploadStages_def dispatcherStage_def explorerStages_def
      registeredPath_def registeredPlaygroundPath_def registeredServer_def defaultPath_def
      defaultPlaygroundPath_def playgroundRenderPageOptions_def)

text \<open>
  C10. With \<open>cors\<close> (respectively \<open>bodyParserConfig\<close>) left \<open>undefined\<close> the
  middleware is registered all the same, built from \<open>undefined\<close>, and the chain is the
  one that \<open>true\<close> gives; only the boolean \<open>false\<close> makes the chain shorter.
\<close>

theorem omitted_option_registers:
  "app_middleware (snd (applyMiddleware E this (r\<lparr>reg_cors := JUndefined\<rparr>))) =
     (app_middleware (reg_app r) @ [initStage E this r] @ healthStages r)
       @ [middlewareFromPath (registeredPath r) (corsMiddleware E JUndefined)]
       @ policyStages (registeredPath r) (bodyParser E) (reg_bodyParserConfig r)
       @ (uploadStages E this r @ [dispatcherStage E this r] @ explorerStages E this r)
   \<and> app_middleware (snd (applyMiddleware E this (r\<lparr>reg_bodyParserConfig := JUndefined\<rparr>))) =
     (app_middleware (reg_app r) @ [initStage E this r] @ healthStages r)
       @ policyStages (registeredPath r) (corsMiddleware E) (reg_cors r)
       @ [middlewareFromPath (registeredPath r) (bodyParser E JUndefined)]
       @ (uploadStages E this r @ [dispatcherStage E this r] @ explorerStages E this r)
   \<and> app_middleware (snd (applyMiddleware E this (r\<lparr>reg_cors := JUndefined\<rparr>))) =
       app_middleware (snd (applyMiddleware E this (r\<lparr>reg_cors := JBool True\<rparr>)))
   \<and> app_middleware (snd (applyMiddleware E this (r\<lparr>reg_bodyParserConfig := JUndefined\<rparr>))) =
       app_middleware (snd (applyMiddleware E this (r\<lparr>reg_bodyParserConfig := JBool True\<rparr>)))
   \<and> length (app_middleware (snd (applyMiddleware E this r))) =
       length (app_middleware (snd (applyMiddleware E this
          (r\<lparr>reg_cors := JBool False, reg_bodyParserConfig := JBool False\<rparr>))))
       + (if reg_cors r = JBool False then 0 else 1)
       + (if reg_bodyParserConfig r = JBool False then 0 else 1)"
  by (simp add: applyMiddleware_chain policyStages_def chain_cors_irrelevant
      chain_bodyParserConfig_irrelevant)

theorem omitted_option_registers_witness:
  "app_middleware (snd (applyMiddleware demoEnv demoServer
       (demoRegistration\<lparr>reg_cors := JUndefined\<rparr>))) =
     [initStage demoEnv demoServer demoRegistration,
      middlewareFromPath ''/.well-known/apollo/server-health'' (healthCheck None),
      middlewareFromPath ''/graphql'' (corsMiddleware demoEnv JUndefined),
      middlewareFromPath ''/graphql''
        (fileUploadMiddleware demoEnv (JObj []) (demoServer\<lparr>srv_base := JObj [(''willStart'', JUndefined)]\<rparr>)),
      dispatcherStage demoEnv demoServer demoRegistration]"
  using omitted_option_registers [of demoEnv demoServer demoRegistration]
  by (simp add: demoEnv_def demoWillStart_def demoServer_def demoRegistration_def initStage_def healthStages_def
      policyStages_def uploadStages_def dispatcherStage_def explorerStages_def
      registeredPath_def registeredPlaygroundPath_def registeredServer_def defaultPath_def
      defaultPlaygroundPath_def playgroundRenderPageOptions_def)



text \<open>
  C9. When the explorer path differs from the execution path, the dispatcher registered
  at the execution path hands every request to that path to the GraphQL engine, also a
  \<open>GET\<close> whose accept list starts with \<open>text/html\<close>.
\<close>

theorem dispatcher_separate_explorer_path:
  assumes "registeredPath r \<noteq> registeredPlaygroundPath r"
    and "ctx_path ctx = registeredPath r"
  shows "dispatcherStage E this r \<in> set (app_middleware (snd (applyMiddleware E this r)))
    \<and> dispatcherStage E this r ctx next =
        graphqlKoa E (createGraphQLServerOptions E (registeredServer E this r)) ctx next"
  using assms dispatcherStage_registered [of E this r]
  by (simp add: dispatcherStage_def middlewareFromPath_def dispatcher_def split: option.splits)

theorem dispatcher_separate_explorer_path_witness:
  "registeredPath (demoRegistration\<lparr>reg_playgroundPath := Some ''/playground''\<rparr>)
     \<noteq> registeredPlaygroundPath (demoRegistration\<lparr>reg_playgroundPath := Some ''/playground''\<rparr>)
   \<and> dispatcherStage demoEnv demoServer
        (demoRegistration\<lparr>reg_playgroundPath := Some ''/playground''\<rparr>)
        (demoRequest ''/graphql'' ''GET'' [''text/html''] [] []) Returned
     = Returned ((demoRequest ''/graphql'' ''GET'' [''text/html''] [] [])
         \<lparr>ctx_status := 200, ctx_body := JStr ''data''\<rparr>)"
  using dispatcher_separate_explorer_path
          [of "demoRegistration\<lparr>reg_playgroundPath := Some ''/playground''\<rparr>"
              "demoRequest ''/graphql'' ''GET'' [''text/html''] [] []"
              demoEnv demoServer Returned]
  by (simp add: demo_defs set_body_def createGraphQLServerOptions_def)

text \<open>
  C8. When playground options are configured and the explorer path differs from the
  execution path, the last stage registered is a handler gated at the explorer path. For
  every request to that path, whatever its method, accept list and continuation, it
  returns the context with content type \<open>text/html\<close> and the rendered explorer page.
\<close>

theorem explorer_only_handler:
  assumes "playgroundRenderPageOptions (registeredServer E this r) (registeredPath r) = Some opts"
    and "registeredPath r \<noteq> registeredPlaygroundPath r"
  shows "explorerStages E this r =
           [middlewareFromPath (registeredPlaygroundPath r) (playgroundHandler E opts)]
    \<and> last (app_middleware (snd (applyMiddleware E this r))) =
           middlewareFromPath (registeredPlaygroundPath r) (playgroundHandler E opts)
    \<and> (ctx_path ctx = registeredPlaygroundPath r \<longrightarrow>
         (\<forall>next. middlewareFromPath (registeredPlaygroundPath r) (playgroundHandler E opts) ctx next
            = Returned (renderPlayground E opts ctx)))
    \<and> map_of (ctx_headers (renderPlayground E opts ctx)) ''Content-Type'' = Some ''text/html''
    \<and> ctx_body (renderPlayground E opts ctx) = JStr (renderPlaygroundPage E opts)"
proof -
  have stages: "explorerStages E this r =
           [middlewareFromPath (registeredPlaygroundPath r) (playgroundHandler E opts)]"
    using assms by (simp add: explorerStages_def)
  then have "last (app_middleware (snd (applyMiddleware E this r))) =
           middlewareFromPath (registeredPlaygroundPath r) (playgroundHandler E opts)"
    by (simp add: applyMiddleware_chain)
  moreover have "ctx_path ctx = registeredPlaygroundPath r \<longrightarrow>
         (\<forall>next. middlewareFromPath (registeredPlaygroundPath r) (playgroundHandler E opts) ctx next
            = Returned (renderPlayground E opts ctx))"
    by (simp add: middlewareFromPath_def playgroundHandler_def)
  ultimately show ?thesis
    using stages renderPlayground_response [of E opts ctx] by blast
qed

theorem explorer_only_handler_witness:
  "playgroundRenderPageOptions
       (registeredServer demoEnv demoServer
          (demoRegistration\<lparr>reg_playgroundPath := Some ''/playground''\<rparr>))
       (registeredPath (demoRegistration\<lparr>reg_playgroundPath := Some ''/playground''\<rparr>))
     = Some [(''endpoint'', JStr ''/graphql''), (''subscriptionEndpoint'', JUndefined)]
   \<and> registeredPath (demoRegistration\<lparr>reg_playgroundPath := Some ''/playground''\<rparr>)
     \<noteq> registeredPlaygroundPath (demoRegistration\<lparr>reg_playgroundPath := Some ''/playground''\<rparr>)
   \<and> last (app_middleware (snd (applyMiddleware demoEnv demoServer
        (demoRegistration\<lparr>reg_playgroundPath := Some ''/playground''\<rparr>))))
        (demoRequest ''/playground'' ''POST'' [''application/json''] [] [])
        (\<lambda>c. Threw (Error ''continued'' None False) c)
     = Returned ((demoRequest ''/playground'' ''POST'' [''application/json''] [] [])
         \<lparr>ctx_status := 200, ctx_headers := [(''Content-Type'', ''text/html'')],
          ctx_body := JStr ''<html>''\<rparr>)"
  using explorer_only_handler
          [of demoEnv demoServer "demoRegistration\<lparr>reg_playgroundPath := Some ''/playground''\<rparr>"
              "[(''endpoint'', JStr ''/graphql''), (''subscriptionEndpoint'', JUndefined)]"
              "demoRequest ''/playground'' ''POST'' [''application/json''] [] []"]
  by (simp add: demo_defs renderPlayground_def set_body_def set_header_def)

text \<open>
  C2. \<open>applyMiddleware\<close> runs the startup routine \<open>willStart\<close> once, on the server as
  it finds it: the server it leaves is the one that single call returned, with the two
  paths recorded, so any count of calls has gone up by exactly one. The promise of that
  call is what the first registered stage, gated at the execution path, awaits: a request
  to that path continues when it is fulfilled and fails with its error when it is
  rejected. The registered chain depends on the routine through the result of that one
  call only, so no stage runs the routine again.
\<close>

theorem willStart_once_shared:
  "fst (applyMiddleware E this r) =
     (snd (willStart E this))\<lparr>srv_graphqlPath := registeredPath r,
        srv_playgroundPath := Some (registeredPlaygroundPath r)\<rparr>
   \<and> app_middleware (snd (applyMiddleware E this r)) ! length (app_middleware (reg_app r)) =
       middlewareFromPath (registeredPath r) (initGate (fst (willStart E this)))
   \<and> (ctx_path ctx = registeredPath r \<longrightarrow>
        middlewareFromPath (registeredPath r) (initGate (fst (willStart E this))) ctx next =
          (case fst (willStart E this) of
             Fulfilled u \<Rightarrow> next ctx
           | Rejected err \<Rightarrow> Threw err ctx))
   \<and> ((\<forall>s. calls (snd (willStart E s)) = Suc (calls s))
        \<and> (\<forall>s a b. calls (s\<lparr>srv_graphqlPath := a, srv_playgroundPath := b\<rparr>) = calls s)
        \<longrightarrow> calls (fst (applyMiddleware E this r)) = Suc (calls this))
   \<and> (\<forall>routine. routine this = willStart E this \<longrightarrow>
         app_middleware (snd (applyMiddleware (E\<lparr>willStart := routine\<rparr>) this r)) =
         app_middleware (snd (applyMiddleware E this r)))"
proof -
  have srv: "fst (applyMiddleware E this r) =
     (snd (willStart E this))\<lparr>srv_graphqlPath := registeredPath r,
        srv_playgroundPath := Some (registeredPlaygroundPath r)\<rparr>"
    by (simp add: applyMiddleware_server registeredServer_def)
  have gate: "app_middleware (snd (applyMiddleware E this r)) ! length (app_middleware (reg_app r)) =
       middlewareFromPath (registeredPath r) (initGate (fst (willStart E this)))"
    by (simp add: initStage_first initStage_def)
  have await: "ctx_path ctx = registeredPath r \<longrightarrow>
        middlewareFromPath (registeredPath r) (initGate (fst (willStart E this))) ctx next =
          (case fst (willStart E this) of
             Fulfilled u \<Rightarrow> next ctx
           | Rejected err \<Rightarrow> Threw err ctx)"
    by (simp add: middlewareFromPath_def initGate_def)
  have once: "(\<forall>s. calls (snd (willStart E s)) = Suc (calls s))
        \<and> (\<forall>s a b. calls (s\<lparr>srv_graphqlPath := a, srv_playgroundPath := b\<rparr>) = calls s)
        \<longrightarrow> calls (fst (applyMiddleware E this r)) = Suc (calls this)"
    by (simp add: srv)
  have same: "\<forall>routine. routine this = willStart E this \<longrightarrow>
         app_middleware (snd (applyMiddleware (E\<lparr>willStart := routine\<rparr>) this r)) =
         app_middleware (snd (applyMiddleware E this r))"
    using chain_same_startup by simp
  from srv gate await once same show ?thesis
    by (intro conjI)
qed


theorem willStart_once_shared_witness:
  "(\<forall>s. demoCalls (snd (willStart demoEnv s)) = Suc (demoCalls s))
   \<and> (\<forall>s a b. demoCalls (s\<lparr>srv_graphqlPath := a, srv_playgroundPath := b\<rparr>) = demoCalls s)
   \<and> demoCalls demoServer = 0
   \<and> demoCalls (fst (applyMiddleware demoEnv demoServer demoRegistration)) = 1
   \<and> app_middleware (snd (applyMiddleware demoEnv demoServer demoRegistration)) ! 0
        = middlewareFromPath ''/graphql'' (initGate (Fulfilled ()))
   \<and> middlewareFromPath ''/graphql'' (initGate (Fulfilled ()))
        (demoRequest ''/graphql'' ''POST'' [] [] []) Returned
        = Returned (demoRequest ''/graphql'' ''POST'' [] [] [])"
proof -
  note once =
    willStart_once_shared
      [of demoEnv demoServer demoRegistration "demoRequest ''/graphql'' ''POST'' [] [] []"
          Returned demoCalls]
  have h1: "\<forall>s. demoCalls (snd (willStart demoEnv s)) = Suc (demoCalls s)"
    by (simp add: demoCalls_def demoEnv_def demoWillStart_def split: jsval.splits)
  have h2: "\<forall>s a b. demoCalls (s\<lparr>srv_graphqlPath := a, srv_playgroundPath := b\<rparr>) = demoCalls s"
    by (simp add: demoCalls_def)
  have zero: "demoCalls demoServer = 0"
    by (simp add: demoCalls_def demoServer_def)
  have "demoCalls (fst (applyMiddleware demoEnv demoServer demoRegistration))
          = Suc (demoCalls demoServer)"
    using once [THEN conjunct2, THEN conjunct2, THEN conjunct2, THEN conjunct1] h1 h2
    by blast
  then have one: "demoCalls (fst (applyMiddleware demoEnv demoServer demoRegistration)) = 1"
    by (simp add: zero)
  have gate: "app_middleware (snd (applyMiddleware demoEnv demoServer demoRegistration)) ! 0
        = middlewareFromPath ''/graphql'' (initGate (Fulfilled ()))"
    using once [THEN conjunct2, THEN conjunct1] by (simp add: demo_defs)
  have await: "middlewareFromPath ''/graphql'' (initGate (Fulfilled ()))
        (demoRequest ''/graphql'' ''POST'' [] [] []) Returned
        = Returned (demoRequest ''/graphql'' ''POST'' [] [] [])"
    using once [THEN conjunct2, THEN conjunct2, THEN conjunct1] by (simp add: demo_defs)
  from h1 h2 zero one gate await show ?thesis
    by (intro conjI)
qed

text \<open>
  C3, as amended. Unless the health check is disabled, the second stage that
  \<open>applyMiddleware\<close> registers is the health-check handler gated at the health path.
  For a request to that path it calls the callback, if there is one, only on a context
  whose content type is \<open>application/health+json\<close>. Without a callback it returns at
  once, whatever the continuation, with that content type and the "pass" body; the
  status is 200 when no status had been assigned to the response, and the assigned one
  otherwise. When the callback returns a promise that is rejected, whatever the error,
  the handler returns with status 503 and the "fail" body; when the promise is
  fulfilled it returns with the "pass" body. So no rejection of the callback's promise
  leaves the handler.
\<close>

theorem healthCheck_promise_outcomes:
  assumes "reg_disableHealthCheck r \<noteq> Some True"
    and "ctx_path ctx = ''/.well-known/apollo/server-health''"
  shows
    "app_middleware (snd (applyMiddleware E this r)) ! Suc (length (app_middleware (reg_app r)))
       = middlewareFromPath ''/.well-known/apollo/server-health''
           (healthCheck (reg_onHealthCheck r))
     \<and> (reg_onHealthCheck r = None \<longrightarrow>
          (\<exists>c. (\<forall>next. middlewareFromPath ''/.well-known/apollo/server-health''
                          (healthCheck (reg_onHealthCheck r)) ctx next = Returned c)
             \<and> map_of (ctx_headers c) ''Content-Type'' = Some ''application/health+json''
             \<and> ctx_body c = JObj [(''status'', JStr ''pass'')]
             \<and> ctx_status c = (if ctx_explicitStatus ctx then ctx_status ctx else 200)))
     \<and> (reg_onHealthCheck r = Some check
          \<and> check (set_header ctx ''Content-Type'' ''application/health+json'')
              = (Inr (Rejected err), ctx2) \<longrightarrow>
          (\<exists>c. (\<forall>next. middlewareFromPath ''/.well-known/apollo/server-health''
                          (healthCheck (reg_onHealthCheck r)) ctx next = Returned c)
             \<and> ctx_status c = 503
             \<and> ctx_body c = JObj [(''status'', JStr ''fail'')]
             \<and> ctx_headers c = ctx_headers ctx2))
     \<and> (reg_onHealthCheck r = Some check
          \<and> check (set_header ctx ''Content-Type'' ''application/health+json'')
              = (Inr (Fulfilled v), ctx2) \<longrightarrow>
          (\<exists>c. (\<forall>next. middlewareFromPath ''/.well-known/apollo/server-health''
                          (healthCheck (reg_onHealthCheck r)) ctx next = Returned c)
             \<and> ctx_body c = JObj [(''status'', JStr ''pass'')]
             \<and> ctx_headers c = ctx_headers ctx2
             \<and> ctx_status c = (if ctx_explicitStatus ctx2 then ctx_status ctx2 else 200)))
     \<and> (reg_onHealthCheck r = Some check
          \<and> (\<forall>c. map_of (ctx_headers c) ''Content-Type'' = Some ''application/health+json''
                 \<longrightarrow> check' c = check c) \<longrightarrow>
          healthCheck (Some check') ctx next = healthCheck (reg_onHealthCheck r) ctx next)"
proof -
  let ?stage = "middlewareFromPath ''/.well-known/apollo/server-health''
                  (healthCheck (reg_onHealthCheck r))"
  have gate: "middlewareFromPath ''/.well-known/apollo/server-health'' h ctx n = h ctx n" for h n
    using assms(2) by (simp add: middlewareFromPath_def)
  have registered:
    "app_middleware (snd (applyMiddleware E this r)) ! Suc (length (app_middleware (reg_app r)))
       = ?stage"
    using assms(1) by (rule healthStage_second)
  have none: "reg_onHealthCheck r = None \<longrightarrow>
          (\<exists>c. (\<forall>next. ?stage ctx next = Returned c)
             \<and> map_of (ctx_headers c) ''Content-Type'' = Some ''application/health+json''
             \<and> ctx_body c = JObj [(''status'', JStr ''pass'')]
             \<and> ctx_status c = (if ctx_explicitStatus ctx then ctx_status ctx else 200))"
    by (auto simp: gate healthCheck_none set_body_def set_header_def update_conv')
  have rejected: "reg_onHealthCheck r = Some check
          \<and> check (set_header ctx ''Content-Type'' ''application/health+json'')
              = (Inr (Rejected err), ctx2) \<longrightarrow>
          (\<exists>c. (\<forall>next. ?stage ctx next = Returned c)
             \<and> ctx_status c = 503
             \<and> ctx_body c = JObj [(''status'', JStr ''fail'')]
             \<and> ctx_headers c = ctx_headers ctx2)"
    by (auto simp: gate healthCheck_rejected set_body_def set_status_def)
  have fulfilled: "reg_onHealthCheck r = Some check
          \<and> check (set_header ctx ''Content-Type'' ''application/health+json'')
              = (Inr (Fulfilled v), ctx2) \<longrightarrow>
          (\<exists>c. (\<forall>next. ?stage ctx next = Returned c)
             \<and> ctx_body c = JObj [(''status'', JStr ''pass'')]
             \<and> ctx_headers c = ctx_headers ctx2
             \<and> ctx_status c = (if ctx_explicitStatus ctx2 then ctx_status ctx2 else 200))"
    by (auto simp: gate healthCheck_fulfilled set_body_def)
  have argument: "reg_onHealthCheck r = Some check
          \<and> (\<forall>c. map_of (ctx_headers c) ''Content-Type'' = Some ''application/health+json''
                 \<longrightarrow> check' c = check c) \<longrightarrow>
          healthCheck (Some check') ctx next = healthCheck (reg_onHealthCheck r) ctx next"
    using healthCheck_callback_argument [of "check'" check ctx "next"] by auto
  from registered none rejected fulfilled argument show ?thesis
    by (intro conjI)
qed

theorem healthCheck_promise_outcomes_witness:
  "reg_disableHealthCheck (demoRegistration\<lparr>reg_onHealthCheck := Some demoRejectingCheck\<rparr>)
     \<noteq> Some True
   \<and> ctx_path (demoRequest ''/.well-known/apollo/server-health'' ''GET'' [] [] []) = ''/.well-known/apollo/server-health''
   \<and> demoRejectingCheck (set_header (demoRequest ''/.well-known/apollo/server-health'' ''GET'' [] [] []) ''Content-Type'' ''application/health+json'')
       = (Inr (Rejected (Error ''database down'' (Some 500) True)),
          set_header (demoRequest ''/.well-known/apollo/server-health'' ''GET'' [] [] []) ''Content-Type'' ''application/health+json'')
   \<and> (app_middleware (snd (applyMiddleware demoEnv demoServer
          (demoRegistration\<lparr>reg_onHealthCheck := Some demoRejectingCheck\<rparr>))) ! Suc 0)
        (demoRequest ''/.well-known/apollo/server-health'' ''GET'' [] [] []) Returned
       = Returned ((demoRequest ''/.well-known/apollo/server-health'' ''GET'' [] [] [])\<lparr>ctx_status := 503, ctx_explicitStatus := True,
            ctx_headers := [(''Content-Type'', ''application/health+json'')],
            ctx_body := JObj [(''status'', JStr ''fail'')]\<rparr>)
   \<and> (app_middleware (snd (applyMiddleware demoEnv demoServer demoRegistration)) ! Suc 0)
        (demoRequest ''/.well-known/apollo/server-health'' ''GET'' [] [] []) Returned
       = Returned ((demoRequest ''/.well-known/apollo/server-health'' ''GET'' [] [] [])\<lparr>ctx_status := 200,
            ctx_headers := [(''Content-Type'', ''application/health+json'')],
            ctx_body := JObj [(''status'', JStr ''pass'')]\<rparr>)"
  using healthCheck_promise_outcomes
          [where r = "demoRegistration\<lparr>reg_onHealthCheck := Some demoRejectingCheck\<rparr>"
             and ctx = "(demoRequest ''/.well-known/apollo/server-health'' ''GET'' [] [] [])" and E = demoEnv and this = demoServer
             and check = demoRejectingCheck
             and err = "Error ''database down'' (Some 500) True"
             and ?ctx2.0 = "set_header (demoRequest ''/.well-known/apollo/server-health'' ''GET'' [] [] []) ''Content-Type'' ''application/health+json''"]
        healthCheck_promise_outcomes
          [where r = demoRegistration and ctx = "(demoRequest ''/.well-known/apollo/server-health'' ''GET'' [] [] [])" and E = demoEnv and this = demoServer]
  by (simp add: demoRegistration_def demoRequest_def demoRejectingCheck_def
      middlewareFromPath_def healthCheck_def set_header_def set_body_def set_status_def)

text \<open>
  C3 as the claim states it fails twice on the registered handler. A callback that throws
  when called, instead of returning a rejected promise, is not absorbed: its error leaves
  the handler, and neither 503 nor the "fail" body is set. And without a callback, a
  response whose status an earlier middleware has assigned (here 201) keeps that status.
\<close>

theorem healthCheck_claim_counterexample:
  "(app_middleware (snd (applyMiddleware demoEnv demoServer
      (demoRegistration\<lparr>reg_onHealthCheck := Some demoThrowingCheck\<rparr>))) ! Suc 0)
     (demoRequest ''/.well-known/apollo/server-health'' ''GET'' [] [] []) Returned
     = Threw (Error ''no database handle'' None False)
         ((demoRequest ''/.well-known/apollo/server-health'' ''GET'' [] [] [])\<lparr>ctx_headers := [(''Content-Type'', ''application/health+json'')]\<rparr>)
   \<and> (app_middleware (snd (applyMiddleware demoEnv demoServer demoRegistration)) ! Suc 0)
       (set_status (demoRequest ''/.well-known/apollo/server-health'' ''GET'' [] [] []) 201) Returned
     = Returned ((demoRequest ''/.well-known/apollo/server-health'' ''GET'' [] [] [])\<lparr>ctx_status := 201, ctx_explicitStatus := True,
          ctx_headers := [(''Content-Type'', ''application/health+json'')],
          ctx_body := JObj [(''status'', JStr ''pass'')]\<rparr>)"
  by (simp add: applyMiddleware_chain healthStages_def demoRegistration_def demoRequest_def
      demoThrowingCheck_def middlewareFromPath_def healthCheck_def set_header_def set_body_def
      set_status_def)

text \<open>
  C4. For a multipart request whose upload processing is rejected with \<open>err\<close>, the
  interceptor throws, whatever the continuation, the array that \<open>formatApolloErrors\<close>
  makes of \<open>[err]\<close> with the server's \<open>formatError\<close> and \<open>debug\<close>. The context it
  leaves has the request body it had before; its status is the error's status when the
  error has a non-zero \<open>status\<close> and a true \<open>expose\<close>, and otherwise the context is
  unchanged.
\<close>

theorem fileUpload_failure:
  assumes "typeis E (ctx_req ctx) [''multipart/form-data'']"
    and "processFileUploads E (ctx_req ctx) uploadsConfig = Rejected err"
  shows "\<exists>ctx'. (\<forall>next. fileUploadMiddleware E uploadsConfig srv ctx next =
             Threw (ErrorArray (formatApolloErrors E [err]
                      \<lparr>formatter = srv_formatError srv, debug = srv_debug srv\<rparr>)) ctx')
           \<and> ctx_request_body ctx' = ctx_request_body ctx
           \<and> (\<forall>code. error_status err = Some code \<and> code \<noteq> 0 \<and> error_expose err
                 \<longrightarrow> ctx' = set_status ctx code \<and> ctx_status ctx' = code)
           \<and> ((\<forall>code. error_status err = Some code \<longrightarrow> code = 0 \<or> \<not> error_expose err)
                 \<longrightarrow> ctx' = ctx)"
  using assms
  by (cases "error_status err")
     (auto simp: fileUploadMiddleware_def set_status_def)

theorem fileUpload_failure_witness:
  "typeis demoEnv (ctx_req (demoRequest ''/graphql'' ''POST'' [] ''multipart/form-data'' ''bad''))
       [''multipart/form-data'']
   \<and> processFileUploads demoEnv
        (ctx_req (demoRequest ''/graphql'' ''POST'' [] ''multipart/form-data'' ''bad'')) (JObj [])
       = Rejected (Error ''too large'' (Some 422) True)
   \<and> fileUploadMiddleware demoEnv (JObj []) demoServer
        (demoRequest ''/graphql'' ''POST'' [] ''multipart/form-data'' ''bad'') Returned
       = Threw (ErrorArray [Error ''too large'' (Some 422) True])
           ((demoRequest ''/graphql'' ''POST'' [] ''multipart/form-data'' ''bad'')
              \<lparr>ctx_status := 422, ctx_explicitStatus := True\<rparr>)"
  using fileUpload_failure
          [of demoEnv "demoRequest ''/graphql'' ''POST'' [] ''multipart/form-data'' ''bad''"
              "JObj []" "Error ''too large'' (Some 422) True" demoServer]
  by (simp add: demoEnv_def demoServer_def demoRequest_def fileUploadMiddleware_def
      set_status_def)

end
